theory Spec2Isabelle
  imports Main "HOL-Library.AList" "HOL-Library.Sublist"
begin

section \<open>Python values and exceptions\<close>

text \<open>
  A Python \<^verbatim>\<open>str\<close> is a list of code points, a \<^verbatim>\<open>bytes\<close> object a list of 8-bit
  characters. The values that travel through \<^verbatim>\<open>reddit_client.py\<close> are those that
  \<^verbatim>\<open>json.loads\<close> returns: \<^verbatim>\<open>None\<close>, booleans, integers, floats, strings, lists and
  dictionaries with string keys. A float is known by the text \<^verbatim>\<open>repr\<close> gives for it
  (which determines it, NaN apart); no operation of the source computes with floats.
  A dictionary is an association list in insertion order.
\<close>

type_synonym pystr = "nat list"
type_synonym bytes = "char list"

abbreviation lit :: "string \<Rightarrow> pystr" where
  "lit s \<equiv> map of_char s"

datatype json =
    JNull
  | JBool bool
  | JInt int
  | JFloat pystr
  | JStr pystr
  | JArr "json list"
  | JObj "(pystr \<times> json) list"

text \<open>
  Every \<^verbatim>\<open>raise Exception(...)\<close> of the two modules is a plain \<^verbatim>\<open>Exception\<close> that
  holds its message and nothing else. The other constructors are the built-in and
  library exception classes; \<^verbatim>\<open>json.JSONDecodeError\<close> is given with \<^verbatim>\<open>str(e)\<close>, which
  \<^verbatim>\<open>_safe_json_parse\<close> formats into its own message.
\<close>

datatype error =
    Exception pystr
  | JSONDecodeError pystr
  | UnicodeDecodeError
  | UnicodeEncodeError
  | AttributeError
  | TypeError
  | KeyError
  | IndexError
  | ValueError
  | RecursionError
  | TimeoutError
  | ConnectionResetError
  | OSError
  | NotImplementedError

subsection \<open>Operations of the source on a value of type \<^verbatim>\<open>Any\<close>\<close>

text \<open>Truth value of an object, as \<^verbatim>\<open>if x:\<close> and \<^verbatim>\<open>not x\<close> test it.\<close>

fun truthy :: "json \<Rightarrow> bool" where
  "truthy JNull = False"
| "truthy (JBool b) = b"
| "truthy (JInt i) = (i \<noteq> 0)"
| "truthy (JFloat r) = (r \<noteq> lit ''0.0'' \<and> r \<noteq> lit ''-0.0'')"
| "truthy (JStr s) = (s \<noteq> [])"
| "truthy (JArr xs) = (xs \<noteq> [])"
| "truthy (JObj kvs) = (kvs \<noteq> [])"

text \<open>\<^verbatim>\<open>x.get(key, default)\<close>: only a dictionary has the method.\<close>

fun py_get :: "json \<Rightarrow> pystr \<Rightarrow> json \<Rightarrow> error + json" where
  "py_get (JObj kvs) k d = Inr (case map_of kvs k of None \<Rightarrow> d | Some v \<Rightarrow> v)"
| "py_get _ k d = Inl AttributeError"

text \<open>\<^verbatim>\<open>x[0]\<close>: a dictionary with string keys has no key \<^verbatim>\<open>0\<close>.\<close>

fun py_index0 :: "json \<Rightarrow> error + json" where
  "py_index0 (JArr []) = Inl IndexError"
| "py_index0 (JArr (x # xs)) = Inr x"
| "py_index0 (JStr []) = Inl IndexError"
| "py_index0 (JStr (c # cs)) = Inr (JStr [c])"
| "py_index0 (JObj kvs) = Inl KeyError"
| "py_index0 _ = Inl TypeError"

text \<open>\<^verbatim>\<open>key in x\<close> for a string \<^verbatim>\<open>key\<close>.\<close>

fun py_contains :: "pystr \<Rightarrow> json \<Rightarrow> error + bool" where
  "py_contains k (JObj kvs) = Inr (k \<in> set (map fst kvs))"
| "py_contains k (JArr xs) = Inr (JStr k \<in> set xs)"
| "py_contains k (JStr s) = Inr (sublist k s)"
| "py_contains k _ = Inl TypeError"

text \<open>\<^verbatim>\<open>x[key]\<close> for a string \<^verbatim>\<open>key\<close>.\<close>

fun py_getitem :: "json \<Rightarrow> pystr \<Rightarrow> error + json" where
  "py_getitem (JObj kvs) k = (case map_of kvs k of None \<Rightarrow> Inl KeyError | Some v \<Rightarrow> Inr v)"
| "py_getitem _ k = Inl TypeError"

text \<open>\<^verbatim>\<open>str.strip()\<close> removes the code points for which \<^verbatim>\<open>str.isspace()\<close> holds.\<close>

definition isspace :: "nat \<Rightarrow> bool" where
  "isspace n = ((9 \<le> n \<and> n \<le> 13) \<or> (28 \<le> n \<and> n \<le> 32) \<or> n = 133 \<or> n = 160
     \<or> n = 5760 \<or> (8192 \<le> n \<and> n \<le> 8202) \<or> n = 8232 \<or> n = 8233 \<or> n = 8239
     \<or> n = 8287 \<or> n = 12288)"

definition strip :: "pystr \<Rightarrow> pystr" where
  "strip s = rev (dropWhile isspace (rev (dropWhile isspace s)))"

subsection \<open>UTF-8: \<^verbatim>\<open>str.encode()\<close> and \<^verbatim>\<open>bytes.decode()\<close>\<close>

definition byte :: "nat \<Rightarrow> char" where
  "byte n = char_of n"

definition encode_char :: "nat \<Rightarrow> error + bytes" where
  "encode_char n =
     (if n < 128 then Inr [byte n]
      else if n < 2048 then Inr [byte (192 + n div 64), byte (128 + n mod 64)]
      else if 55296 \<le> n \<and> n \<le> 57343 then Inl UnicodeEncodeError
      else if n < 65536 then
        Inr [byte (224 + n div 4096), byte (128 + n div 64 mod 64), byte (128 + n mod 64)]
      else if n < 1114112 then
        Inr [byte (240 + n div 262144), byte (128 + n div 4096 mod 64),
             byte (128 + n div 64 mod 64), byte (128 + n mod 64)]
      else Inl UnicodeEncodeError)"

fun encode :: "pystr \<Rightarrow> error + bytes" where
  "encode [] = Inr []"
| "encode (n # ns) =
     (case encode_char n of
        Inl e \<Rightarrow> Inl e
      | Inr bs \<Rightarrow> (case encode ns of Inl e \<Rightarrow> Inl e | Inr r \<Rightarrow> Inr (bs @ r)))"

definition cont :: "char \<Rightarrow> bool" where
  "cont b = (128 \<le> (of_char b :: nat) \<and> (of_char b :: nat) < 192)"

definition decoded :: "nat \<Rightarrow> error + pystr \<Rightarrow> error + pystr" where
  "decoded n r = (case r of Inl e \<Rightarrow> Inl e | Inr s \<Rightarrow> Inr (n # s))"

fun decode :: "bytes \<Rightarrow> error + pystr" where
  "decode [] = Inr []"
| "decode (b # bs) =
     (let n = (of_char b :: nat) in
      if n < 128 then decoded n (decode bs)
      else if 194 \<le> n \<and> n \<le> 223 then
        (case bs of
           b1 # r \<Rightarrow>
             if cont b1 then decoded ((n - 192) * 64 + (of_char b1 - 128)) (decode r)
             else Inl UnicodeDecodeError
         | _ \<Rightarrow> Inl UnicodeDecodeError)
      else if 224 \<le> n \<and> n \<le> 239 then
        (case bs of
           b1 # b2 # r \<Rightarrow>
             if cont b1 \<and> cont b2 \<and> (n = 224 \<longrightarrow> 160 \<le> (of_char b1 :: nat))
                \<and> (n = 237 \<longrightarrow> (of_char b1 :: nat) < 160)
             then decoded (((n - 224) * 64 + (of_char b1 - 128)) * 64 + (of_char b2 - 128))
                    (decode r)
             else Inl UnicodeDecodeError
         | _ \<Rightarrow> Inl UnicodeDecodeError)
      else if 240 \<le> n \<and> n \<le> 244 then
        (case bs of
           b1 # b2 # b3 # r \<Rightarrow>
             if cont b1 \<and> cont b2 \<and> cont b3 \<and> (n = 240 \<longrightarrow> 144 \<le> (of_char b1 :: nat))
                \<and> (n = 244 \<longrightarrow> (of_char b1 :: nat) < 144)
             then decoded ((((n - 240) * 64 + (of_char b1 - 128)) * 64 + (of_char b2 - 128)) * 64
                            + (of_char b3 - 128))
                    (decode r)
             else Inl UnicodeDecodeError
         | _ \<Rightarrow> Inl UnicodeDecodeError)
      else Inl UnicodeDecodeError)"

section \<open>The library functions that the source calls\<close>

text \<open>
  \<^verbatim>\<open>json.dumps\<close>, \<^verbatim>\<open>json.loads\<close> and the formatting of a value in an f-string
  (\<^verbatim>\<open>str(x)\<close>) belong to the Python distribution, not to this repository. The
  functions of the source take them as a parameter, and the theorems hold for
  whatever these functions compute or raise.
\<close>

record lib =
  json_dumps :: "json \<Rightarrow> error + pystr"
  json_loads :: "pystr \<Rightarrow> error + json"
  py_str :: "json \<Rightarrow> error + pystr"

section \<open>The RPC client: \<^verbatim>\<open>reddit_client.py\<close>\<close>

text \<open>
  The child process, seen from the client: the bytes written to its standard input
  so far, the bytes it still writes to its standard output before closing it, and
  whether the pipe to its standard input is known to be broken. The coroutines of
  \<^verbatim>\<open>RedditMCPClient\<close> run one after the other on one event loop; each is a function
  from the client before to an outcome and the client after.
\<close>

record process =
  stdin :: bytes
  stdout :: bytes
  connection_lost :: bool

record client =
  server_path :: pystr
  process :: "process option"

definition RedditMCPClient :: "pystr \<Rightarrow> client" where
  "RedditMCPClient path = \<lparr>server_path = path, process = None\<rparr>"

text \<open>
  \<^verbatim>\<open>StreamReader.readline()\<close> on a reader made by \<^verbatim>\<open>create_subprocess_exec\<close> without
  \<^verbatim>\<open>limit=\<close>, hence with the default limit of \<^verbatim>\<open>2 ** 16\<close> bytes: the bytes up to and
  including the next newline, or what is left when the stream ends first; and
  \<^verbatim>\<open>ValueError\<close> when more than the limit precede the newline (or the end), in which
  case the model drops the line.
\<close>

abbreviation newline :: char where "newline \<equiv> CHR 0x0A"

definition stream_limit :: nat where
  "stream_limit = 65536"

definition readline :: "bytes \<Rightarrow> (error + bytes) \<times> bytes" where
  "readline s =
     (let l = takeWhile (\<lambda>c. c \<noteq> newline) s;
          r = dropWhile (\<lambda>c. c \<noteq> newline) s
      in if stream_limit < length l then (Inl ValueError, tl r)
         else (case r of [] \<Rightarrow> (Inr l, []) | n # rest \<Rightarrow> (Inr (l @ [n]), rest)))"

text \<open>
  \<^verbatim>\<open>_send_message\<close>. \<^verbatim>\<open>write\<close> on a broken pipe is ignored by the transport and
  \<^verbatim>\<open>drain\<close> then raises \<^verbatim>\<open>ConnectionResetError\<close>.
\<close>

definition send_message :: "lib \<Rightarrow> json \<Rightarrow> client \<Rightarrow> (error + unit) \<times> client" where
  "send_message L message self =
     (case process self of
        None \<Rightarrow> (Inl (Exception (lit ''Server not started'')), self)
      | Some p \<Rightarrow>
          (case json_dumps L message of
             Inl e \<Rightarrow> (Inl e, self)
           | Inr s \<Rightarrow>
               (case encode (s @ lit [newline]) of
                  Inl e \<Rightarrow> (Inl e, self)
                | Inr data \<Rightarrow>
                    if connection_lost p then (Inl ConnectionResetError, self)
                    else (Inr (), self\<lparr>process := Some (p\<lparr>stdin := stdin p @ data\<rparr>)\<rparr>))))"

definition read_message :: "lib \<Rightarrow> client \<Rightarrow> (error + json) \<times> client" where
  "read_message L self =
     (case process self of
        None \<Rightarrow> (Inl (Exception (lit ''Server not started'')), self)
      | Some p \<Rightarrow>
          (case readline (stdout p) of
             (r, rest) \<Rightarrow>
               (let self' = self\<lparr>process := Some (p\<lparr>stdout := rest\<rparr>)\<rparr>
                in case r of
                     Inl e \<Rightarrow> (Inl e, self')
                   | Inr line \<Rightarrow>
                       if line = [] then
                         (Inl (Exception (lit ''Server connection closed'')), self')
                       else (case decode line of
                               Inl e \<Rightarrow> (Inl e, self')
                             | Inr s \<Rightarrow> (json_loads L (strip s), self')))))"

text \<open>The request of \<^verbatim>\<open>start\<close> (lines 23 to 35).\<close>

definition initialize_request :: json where
  "initialize_request =
     JObj [(lit ''jsonrpc'', JStr (lit ''2.0'')),
           (lit ''id'', JInt 1),
           (lit ''method'', JStr (lit ''initialize'')),
           (lit ''params'',
              JObj [(lit ''protocolVersion'', JStr (lit ''2024-11-05'')),
                    (lit ''capabilities'', JObj []),
                    (lit ''clientInfo'', JObj [(lit ''name'', JStr (lit ''reddit-client'')),
                                               (lit ''version'', JStr (lit ''1.0.0''))])])]"

text \<open>
  \<^verbatim>\<open>start\<close>. \<open>child\<close> is what \<^verbatim>\<open>create_subprocess_exec\<close> gives: an exception, or the
  process. The message of the failure is \<^verbatim>\<open>f"Failed to initialize: {response}"\<close>.
\<close>

definition start :: "lib \<Rightarrow> error + process \<Rightarrow> client \<Rightarrow> (error + unit) \<times> client" where
  "start L child self =
     (case child of
        Inl e \<Rightarrow> (Inl e, self)
      | Inr p \<Rightarrow>
          (let self1 = self\<lparr>process := Some p\<rparr>
           in case send_message L initialize_request self1 of
                (Inl e, self2) \<Rightarrow> (Inl e, self2)
              | (Inr _, self2) \<Rightarrow>
                  (case read_message L self2 of
                     (Inl e, self3) \<Rightarrow> (Inl e, self3)
                   | (Inr response, self3) \<Rightarrow>
                       (case py_get response (lit ''result'') JNull of
                          Inl e \<Rightarrow> (Inl e, self3)
                        | Inr result \<Rightarrow>
                            if truthy result then (Inr (), self3)
                            else (case py_str L response of
                                    Inl e \<Rightarrow> (Inl e, self3)
                                  | Inr s \<Rightarrow>
                                      (Inl (Exception (lit ''Failed to initialize: '' @ s)),
                                       self3))))))"

text \<open>
  \<^verbatim>\<open>_safe_json_parse\<close>. Its second message is
  \<^verbatim>\<open>f"Invalid JSON response: {text[:100]}... Error: {e}"\<close>; only
  \<^verbatim>\<open>json.JSONDecodeError\<close> is caught.
\<close>

definition safe_json_parse :: "lib \<Rightarrow> json \<Rightarrow> error + json" where
  "safe_json_parse L text =
     (if \<not> truthy text then Inl (Exception (lit ''Empty response from server''))
      else case text of
             JStr s \<Rightarrow>
               if strip s = [] then Inl (Exception (lit ''Empty response from server''))
               else (case json_loads L s of
                       Inl (JSONDecodeError m) \<Rightarrow>
                         Inl (Exception (lit ''Invalid JSON response: '' @ take 100 s
                                           @ lit ''... Error: '' @ m))
                     | Inl e \<Rightarrow> Inl e
                     | Inr v \<Rightarrow> Inr v)
           | _ \<Rightarrow> Inl AttributeError)"

text \<open>The request of \<^verbatim>\<open>call_tool\<close> (lines 76 to 84).\<close>

definition tools_call_request :: "pystr \<Rightarrow> json \<Rightarrow> json" where
  "tools_call_request tool_name arguments =
     JObj [(lit ''jsonrpc'', JStr (lit ''2.0'')),
           (lit ''id'', JInt 2),
           (lit ''method'', JStr (lit ''tools/call'')),
           (lit ''params'', JObj [(lit ''name'', JStr tool_name), (lit ''arguments'', arguments)])]"

text \<open>
  Line 92:
  \<^verbatim>\<open>response.get("result", {}).get("content", [{}])[0].get("text", "")\<close>.
\<close>

definition extract_text :: "json \<Rightarrow> error + json" where
  "extract_text response =
     (case py_get response (lit ''result'') (JObj []) of
        Inl e \<Rightarrow> Inl e
      | Inr result \<Rightarrow>
          (case py_get result (lit ''content'') (JArr [JObj []]) of
             Inl e \<Rightarrow> Inl e
           | Inr content \<Rightarrow>
               (case py_index0 content of
                  Inl e \<Rightarrow> Inl e
                | Inr first \<Rightarrow> py_get first (lit ''text'') (JStr []))))"

text \<open>
  \<^verbatim>\<open>call_tool\<close>. Lines 89 and 90 raise
  \<^verbatim>\<open>Exception(f"Tool error: {response['error']}")\<close>.
\<close>

definition call_tool :: "lib \<Rightarrow> pystr \<Rightarrow> json \<Rightarrow> client \<Rightarrow> (error + json) \<times> client" where
  "call_tool L tool_name arguments self =
     (case send_message L (tools_call_request tool_name arguments) self of
        (Inl e, self1) \<Rightarrow> (Inl e, self1)
      | (Inr _, self1) \<Rightarrow>
          (case read_message L self1 of
             (Inl e, self2) \<Rightarrow> (Inl e, self2)
           | (Inr response, self2) \<Rightarrow>
               (case py_contains (lit ''error'') response of
                  Inl e \<Rightarrow> (Inl e, self2)
                | Inr True \<Rightarrow>
                    (case py_getitem response (lit ''error'') of
                       Inl e \<Rightarrow> (Inl e, self2)
                     | Inr payload \<Rightarrow>
                         (case py_str L payload of
                            Inl e \<Rightarrow> (Inl e, self2)
                          | Inr s \<Rightarrow> (Inl (Exception (lit ''Tool error: '' @ s)), self2)))
                | Inr False \<Rightarrow> (extract_text response, self2))))"

text \<open>\<^verbatim>\<open>return self._safe_json_parse(result)\<close> after \<^verbatim>\<open>result = await self.call_tool(...)\<close>.\<close>

definition parse_result ::
  "lib \<Rightarrow> (error + json) \<times> client \<Rightarrow> (error + json) \<times> client" where
  "parse_result L r = (case r of (Inl e, self') \<Rightarrow> (Inl e, self')
                       | (Inr result, self') \<Rightarrow> (safe_json_parse L result, self'))"

definition fetch_posts :: "lib \<Rightarrow> pystr \<Rightarrow> int \<Rightarrow> client \<Rightarrow> (error + json) \<times> client" where
  "fetch_posts L subreddit limit self =
     parse_result L (call_tool L (lit ''fetchPosts'')
       (JObj [(lit ''subreddit'', JStr subreddit), (lit ''limit'', JInt limit)]) self)"

definition search_posts ::
  "lib \<Rightarrow> pystr \<Rightarrow> pystr \<Rightarrow> int \<Rightarrow> client \<Rightarrow> (error + json) \<times> client" where
  "search_posts L subreddit query limit self =
     parse_result L (call_tool L (lit ''searchPosts'')
       (JObj [(lit ''subreddit'', JStr subreddit), (lit ''query'', JStr query),
              (lit ''limit'', JInt limit)]) self)"

definition get_comments :: "lib \<Rightarrow> pystr \<Rightarrow> client \<Rightarrow> (error + json) \<times> client" where
  "get_comments L post_id self =
     parse_result L (call_tool L (lit ''getComments'') (JObj [(lit ''post_id'', JStr post_id)]) self)"

definition get_subreddit_info :: "lib \<Rightarrow> pystr \<Rightarrow> client \<Rightarrow> (error + json) \<times> client" where
  "get_subreddit_info L subreddit self =
     parse_result L (call_tool L (lit ''getSubredditInfo'')
       (JObj [(lit ''subreddit'', JStr subreddit)]) self)"

definition post_comment ::
  "lib \<Rightarrow> pystr \<Rightarrow> pystr \<Rightarrow> client \<Rightarrow> (error + json) \<times> client" where
  "post_comment L post_id comment_text self =
     parse_result L (call_tool L (lit ''postComment'')
       (JObj [(lit ''post_id'', JStr post_id), (lit ''comment_text'', JStr comment_text)]) self)"

text \<open>
  The arguments of \<^verbatim>\<open>post_to_subreddit\<close> (lines 135 to 142); \<^verbatim>\<open>content\<close> and \<^verbatim>\<open>url\<close>
  are a string or \<^verbatim>\<open>None\<close>, and \<^verbatim>\<open>if content:\<close> holds for a non-empty string only.
\<close>

definition str_truthy :: "pystr option \<Rightarrow> bool" where
  "str_truthy x = (case x of None \<Rightarrow> False | Some s \<Rightarrow> s \<noteq> [])"

definition post_to_subreddit_args ::
  "pystr \<Rightarrow> pystr \<Rightarrow> pystr option \<Rightarrow> pystr option \<Rightarrow> (pystr \<times> json) list" where
  "post_to_subreddit_args subreddit title content url =
     (let args = [(lit ''subreddit'', JStr subreddit), (lit ''title'', JStr title)];
          args1 = (if str_truthy content
                   then AList.update (lit ''content'') (JStr (the content)) args else args);
          args2 = (if str_truthy url
                   then AList.update (lit ''url'') (JStr (the url)) args1 else args1)
      in args2)"

definition post_to_subreddit ::
  "lib \<Rightarrow> pystr \<Rightarrow> pystr \<Rightarrow> pystr option \<Rightarrow> pystr option \<Rightarrow> client
     \<Rightarrow> (error + json) \<times> client" where
  "post_to_subreddit L subreddit title content url self =
     parse_result L (call_tool L (lit ''postToSubreddit'')
       (JObj (post_to_subreddit_args subreddit title content url)) self)"

section \<open>The synchronous wrapper: \<^verbatim>\<open>reddit_sync_client.py\<close>\<close>

text \<open>
  \<^verbatim>\<open>future.result(timeout=t)\<close> waits for a coroutine submitted to the event loop of
  the background thread. \<open>elapsed\<close> is the time the coroutine takes, \<open>None\<close> when it
  never finishes; the wait returns its outcome if that is within \<open>t\<close>, and raises
  \<^verbatim>\<open>TimeoutError\<close> otherwise. What a coroutine that is still running does to the
  client later is not part of the step that timed out.
\<close>

definition completes_within :: "nat \<Rightarrow> nat option \<Rightarrow> bool" where
  "completes_within t elapsed = (case elapsed of None \<Rightarrow> False | Some d \<Rightarrow> d \<le> t)"

definition future_result ::
  "nat \<Rightarrow> nat option \<Rightarrow> (error + 'a) \<times> client \<Rightarrow> client \<Rightarrow> (error + 'a) \<times> client" where
  "future_result t elapsed coro before =
     (if completes_within t elapsed then coro else (Inl TimeoutError, before))"

record sync_client =
  client :: "client option"
  loop :: "unit option"
  thread :: "unit option"
  initialized :: bool

definition RedditSyncClient :: sync_client where
  "RedditSyncClient = \<lparr>client = None, loop = None, thread = None, initialized = False\<rparr>"

text \<open>The path of \<^verbatim>\<open>server.py\<close>, beside the module; the directory is not modelled.\<close>

definition server_py :: pystr where
  "server_py = lit ''server.py''"

text \<open>The \<^verbatim>\<open>try\<close> block of \<^verbatim>\<open>initialize\<close> (lines 36 to 60).\<close>

definition initialize_try ::
  "lib \<Rightarrow> nat option \<Rightarrow> error + process \<Rightarrow> sync_client \<Rightarrow> (error + bool) \<times> sync_client" where
  "initialize_try L elapsed child self =
     (let self1 = self\<lparr>loop := Some (), thread := Some ()\<rparr>;
          c = RedditMCPClient server_py;
          self2 = self1\<lparr>client := Some c\<rparr>
      in case future_result 10 elapsed (start L child c) c of
           (Inl e, c') \<Rightarrow> (Inl e, self2\<lparr>client := Some c'\<rparr>)
         | (Inr _, c') \<Rightarrow> (Inr True, self2\<lparr>client := Some c', initialized := True\<rparr>))"

text \<open>\<^verbatim>\<open>initialize\<close>: \<^verbatim>\<open>except Exception as e\<close> prints the exception and returns \<^verbatim>\<open>False\<close>.\<close>

definition initialize ::
  "lib \<Rightarrow> nat option \<Rightarrow> error + process \<Rightarrow> sync_client \<Rightarrow> (error + bool) \<times> sync_client" where
  "initialize L elapsed child self =
     (if initialized self then (Inr True, self)
      else case initialize_try L elapsed child self of
             (Inl e, self') \<Rightarrow> (Inr False, self')
           | (Inr b, self') \<Rightarrow> (Inr b, self'))"

definition run_async ::
  "nat \<Rightarrow> nat option \<Rightarrow> sync_client \<Rightarrow> client \<Rightarrow> (error + 'a) \<times> client
     \<Rightarrow> (error + 'a) \<times> sync_client" where
  "run_async timeout elapsed self c coro =
     (if \<not> initialized self
      then (Inl (Exception (lit ''Client not initialized. Call initialize() first.'')), self)
      else case future_result timeout elapsed coro c of
             (r, c') \<Rightarrow> (r, self\<lparr>client := Some c'\<rparr>))"

text \<open>
  The delegated operations. The argument \<^verbatim>\<open>self.client.fetch_posts(...)\<close> is evaluated
  before \<^verbatim>\<open>_run_async\<close> is entered: reading the attribute of \<^verbatim>\<open>None\<close> raises
  \<^verbatim>\<open>AttributeError\<close>; on a client it only creates the coroutine.
\<close>

definition delegate ::
  "nat option \<Rightarrow> sync_client \<Rightarrow> (client \<Rightarrow> (error + 'a) \<times> client) \<Rightarrow> (error + 'a) \<times> sync_client" where
  "delegate elapsed self method =
     (case client self of
        None \<Rightarrow> (Inl AttributeError, self)
      | Some c \<Rightarrow> run_async 30 elapsed self c (method c))"

definition sync_fetch_posts ::
  "lib \<Rightarrow> nat option \<Rightarrow> pystr \<Rightarrow> int \<Rightarrow> sync_client \<Rightarrow> (error + json) \<times> sync_client" where
  "sync_fetch_posts L elapsed subreddit limit self =
     delegate elapsed self (fetch_posts L subreddit limit)"

definition sync_search_posts ::
  "lib \<Rightarrow> nat option \<Rightarrow> pystr \<Rightarrow> pystr \<Rightarrow> int \<Rightarrow> sync_client
     \<Rightarrow> (error + json) \<times> sync_client" where
  "sync_search_posts L elapsed subreddit query limit self =
     delegate elapsed self (search_posts L subreddit query limit)"

definition sync_get_comments ::
  "lib \<Rightarrow> nat option \<Rightarrow> pystr \<Rightarrow> sync_client \<Rightarrow> (error + json) \<times> sync_client" where
  "sync_get_comments L elapsed post_id self = delegate elapsed self (get_comments L post_id)"

definition sync_get_subreddit_info ::
  "lib \<Rightarrow> nat option \<Rightarrow> pystr \<Rightarrow> sync_client \<Rightarrow> (error + json) \<times> sync_client" where
  "sync_get_subreddit_info L elapsed subreddit self =
     delegate elapsed self (get_subreddit_info L subreddit)"

definition sync_post_comment ::
  "lib \<Rightarrow> nat option \<Rightarrow> pystr \<Rightarrow> pystr \<Rightarrow> sync_client \<Rightarrow> (error + json) \<times> sync_client" where
  "sync_post_comment L elapsed post_id comment_text self =
     delegate elapsed self (post_comment L post_id comment_text)"

definition sync_post_to_subreddit ::
  "lib \<Rightarrow> nat option \<Rightarrow> pystr \<Rightarrow> pystr \<Rightarrow> pystr option \<Rightarrow> pystr option \<Rightarrow> sync_client
     \<Rightarrow> (error + json) \<times> sync_client" where
  "sync_post_to_subreddit L elapsed subreddit title content url self =
     delegate elapsed self (post_to_subreddit L subreddit title content url)"

section \<open>A reference library for concrete inputs\<close>

text \<open>
  The closed examples below need the library at particular inputs. \<open>ref_lib\<close> is an
  executable stand-in for it, not the library: it computes what CPython 3 computes
  for \<^verbatim>\<open>json.dumps\<close>, \<^verbatim>\<open>json.loads\<close> and \<^verbatim>\<open>str\<close> on the documents used in the
  examples (strings of printable ASCII, integers, lists, dictionaries). Outside them
  it differs: \<open>ref_loads\<close> does not build floats (\<open>NotImplementedError\<close>), gives
  \<^verbatim>\<open>JSONDecodeError\<close> without its message, and takes the code points from U+0080 for
  printable in \<open>ref_repr\<close>. No theorem about the source depends on it.
\<close>

abbreviation ch :: "char \<Rightarrow> nat" where
  "ch c \<equiv> of_char c"

abbreviation quote :: nat where "quote \<equiv> 34"
abbreviation apostrophe :: nat where "apostrophe \<equiv> 39"
abbreviation backslash :: nat where "backslash \<equiv> 92"

definition hexdigit :: "nat \<Rightarrow> nat" where
  "hexdigit n = (if n < 10 then 48 + n else 87 + n)"

definition hex2 :: "nat \<Rightarrow> pystr" where
  "hex2 n = [hexdigit (n div 16 mod 16), hexdigit (n mod 16)]"

definition hex4 :: "nat \<Rightarrow> pystr" where
  "hex4 n = hex2 (n div 256) @ hex2 n"

fun digits :: "nat \<Rightarrow> pystr" where
  "digits n = (if n < 10 then [48 + n] else digits (n div 10) @ [48 + n mod 10])"

declare digits.simps [simp del]

definition int_repr :: "int \<Rightarrow> pystr" where
  "int_repr i = (if i < 0 then ch CHR ''-'' # digits (nat (- i)) else digits (nat i))"

subsection \<open>\<^verbatim>\<open>str\<close> and \<^verbatim>\<open>repr\<close>\<close>

definition repr_char :: "nat \<Rightarrow> nat \<Rightarrow> pystr" where
  "repr_char q c =
     (if c = q \<or> c = backslash then [backslash, c]
      else if c = 9 then [backslash, ch CHR ''t'']
      else if c = 10 then [backslash, ch CHR ''n'']
      else if c = 13 then [backslash, ch CHR ''r'']
      else if c < 32 \<or> c = 127 then [backslash, ch CHR ''x''] @ hex2 c
      else [c])"

definition str_repr :: "pystr \<Rightarrow> pystr" where
  "str_repr s =
     (let q = (if apostrophe \<in> set s \<and> quote \<notin> set s then quote else apostrophe)
      in q # concat (map (repr_char q) s) @ [q])"

fun ref_repr :: "json \<Rightarrow> pystr"
  and repr_elems :: "json list \<Rightarrow> pystr"
  and repr_members :: "(pystr \<times> json) list \<Rightarrow> pystr" where
  "ref_repr JNull = lit ''None''"
| "ref_repr (JBool b) = (if b then lit ''True'' else lit ''False'')"
| "ref_repr (JInt i) = int_repr i"
| "ref_repr (JFloat r) = r"
| "ref_repr (JStr s) = str_repr s"
| "ref_repr (JArr xs) = lit ''['' @ repr_elems xs @ lit '']''"
| "ref_repr (JObj kvs) = lit ''{'' @ repr_members kvs @ lit ''}''"
| "repr_elems [] = []"
| "repr_elems [x] = ref_repr x"
| "repr_elems (x # y # ys) = ref_repr x @ lit '', '' @ repr_elems (y # ys)"
| "repr_members [] = []"
| "repr_members [kv] = str_repr (fst kv) @ lit '': '' @ ref_repr (snd kv)"
| "repr_members (kv # kv' # kvs) =
     str_repr (fst kv) @ lit '': '' @ ref_repr (snd kv) @ lit '', '' @ repr_members (kv' # kvs)"

definition ref_str :: "json \<Rightarrow> error + pystr" where
  "ref_str v = (case v of JStr s \<Rightarrow> Inr s | _ \<Rightarrow> Inr (ref_repr v))"

subsection \<open>\<^verbatim>\<open>json.dumps\<close> with its default arguments\<close>

definition escape_char :: "nat \<Rightarrow> pystr" where
  "escape_char c =
     (if c = quote then [backslash, quote]
      else if c = backslash then [backslash, backslash]
      else if c = 8 then [backslash, ch CHR ''b'']
      else if c = 12 then [backslash, ch CHR ''f'']
      else if c = 10 then [backslash, ch CHR ''n'']
      else if c = 13 then [backslash, ch CHR ''r'']
      else if c = 9 then [backslash, ch CHR ''t'']
      else if 32 \<le> c \<and> c \<le> 126 then [c]
      else if c < 65536 then [backslash, ch CHR ''u''] @ hex4 c
      else [backslash, ch CHR ''u''] @ hex4 (55296 + (c - 65536) div 1024)
           @ [backslash, ch CHR ''u''] @ hex4 (56320 + (c - 65536) mod 1024))"

definition encode_basestring_ascii :: "pystr \<Rightarrow> pystr" where
  "encode_basestring_ascii s = quote # concat (map escape_char s) @ [quote]"

definition float_json :: "pystr \<Rightarrow> pystr" where
  "float_json r =
     (if r = lit ''nan'' then lit ''NaN''
      else if r = lit ''inf'' then lit ''Infinity''
      else if r = lit ''-inf'' then lit ''-Infinity''
      else r)"

fun dumps :: "json \<Rightarrow> pystr"
  and dumps_elems :: "json list \<Rightarrow> pystr"
  and dumps_members :: "(pystr \<times> json) list \<Rightarrow> pystr" where
  "dumps JNull = lit ''null''"
| "dumps (JBool b) = (if b then lit ''true'' else lit ''false'')"
| "dumps (JInt i) = int_repr i"
| "dumps (JFloat r) = float_json r"
| "dumps (JStr s) = encode_basestring_ascii s"
| "dumps (JArr xs) = lit ''['' @ dumps_elems xs @ lit '']''"
| "dumps (JObj kvs) = lit ''{'' @ dumps_members kvs @ lit ''}''"
| "dumps_elems [] = []"
| "dumps_elems [x] = dumps x"
| "dumps_elems (x # y # ys) = dumps x @ lit '', '' @ dumps_elems (y # ys)"
| "dumps_members [] = []"
| "dumps_members [kv] = encode_basestring_ascii (fst kv) @ lit '': '' @ dumps (snd kv)"
| "dumps_members (kv # kv' # kvs) =
     encode_basestring_ascii (fst kv) @ lit '': '' @ dumps (snd kv) @ lit '', ''
       @ dumps_members (kv' # kvs)"

definition ref_dumps :: "json \<Rightarrow> error + pystr" where
  "ref_dumps v = Inr (dumps v)"

subsection \<open>\<^verbatim>\<open>json.loads\<close> with the default decoder\<close>

definition ws :: "nat \<Rightarrow> bool" where
  "ws c = (c = 32 \<or> c = 9 \<or> c = 10 \<or> c = 13)"

definition skip_ws :: "pystr \<Rightarrow> pystr" where
  "skip_ws s = dropWhile ws s"

definition hexval :: "nat \<Rightarrow> nat option" where
  "hexval n =
     (if 48 \<le> n \<and> n \<le> 57 then Some (n - 48)
      else if 97 \<le> n \<and> n \<le> 102 then Some (n - 87)
      else if 65 \<le> n \<and> n \<le> 70 then Some (n - 55)
      else None)"

definition unhex4 :: "pystr \<Rightarrow> nat option" where
  "unhex4 s = (case s of
     a # b # c # d # _ \<Rightarrow>
       (case (hexval a, hexval b, hexval c, hexval d) of
          (Some x, Some y, Some z, Some w) \<Rightarrow> Some (((x * 16 + y) * 16 + z) * 16 + w)
        | _ \<Rightarrow> None)
   | _ \<Rightarrow> None)"

definition unescape :: "nat \<Rightarrow> nat option" where
  "unescape e =
     (if e = quote then Some quote
      else if e = backslash then Some backslash
      else if e = ch CHR ''/'' then Some (ch CHR ''/'')
      else if e = ch CHR ''b'' then Some 8
      else if e = ch CHR ''f'' then Some 12
      else if e = ch CHR ''n'' then Some 10
      else if e = ch CHR ''r'' then Some 13
      else if e = ch CHR ''t'' then Some 9
      else None)"

definition cons_result :: "nat \<Rightarrow> error + pystr \<times> pystr \<Rightarrow> error + pystr \<times> pystr" where
  "cons_result c r = (case r of Inl e \<Rightarrow> Inl e | Inr (s, rest) \<Rightarrow> Inr (c # s, rest))"

text \<open>
  The low surrogate that follows a high one, when the text goes on with a second
  \<^verbatim>\<open>\uXXXX\<close> escape.
\<close>

definition low_surrogate :: "pystr \<Rightarrow> (error + nat) option" where
  "low_surrogate s = (case s of
     b # u # r \<Rightarrow>
       if b = backslash \<and> u = ch CHR ''u'' then
         (case unhex4 r of
            None \<Rightarrow> Some (Inl (JSONDecodeError []))
          | Some m \<Rightarrow> if 56320 \<le> m \<and> m \<le> 57343 then Some (Inr m) else None)
       else None
   | _ \<Rightarrow> None)"

text \<open>The characters after an opening quote, up to the closing one.\<close>

fun scanstring :: "pystr \<Rightarrow> error + pystr \<times> pystr" where
  "scanstring [] = Inl (JSONDecodeError [])"
| "scanstring (c # cs) =
     (if c = quote then Inr ([], cs)
      else if c = backslash then
        (case cs of
           [] \<Rightarrow> Inl (JSONDecodeError [])
         | e # cs' \<Rightarrow>
             if e = ch CHR ''u'' then
               (case unhex4 cs' of
                  None \<Rightarrow> Inl (JSONDecodeError [])
                | Some n \<Rightarrow>
                    if 55296 \<le> n \<and> n \<le> 56319 then
                      (case low_surrogate (drop 4 cs') of
                         Some (Inl err) \<Rightarrow> Inl err
                       | Some (Inr m) \<Rightarrow>
                           cons_result (65536 + (n - 55296) * 1024 + (m - 56320))
                             (scanstring (drop 10 cs'))
                       | None \<Rightarrow> cons_result n (scanstring (drop 4 cs')))
                    else cons_result n (scanstring (drop 4 cs')))
             else
               (case unescape e of
                  None \<Rightarrow> Inl (JSONDecodeError [])
                | Some x \<Rightarrow> cons_result x (scanstring cs')))
      else if c < 32 then Inl (JSONDecodeError [])
      else cons_result c (scanstring cs))"

definition is_digit :: "nat \<Rightarrow> bool" where
  "is_digit c = (48 \<le> c \<and> c \<le> 57)"

definition nat_of_digits :: "pystr \<Rightarrow> nat" where
  "nat_of_digits ds = foldl (\<lambda>a c. 10 * a + (c - 48)) 0 ds"

text \<open>The integer part \<^verbatim>\<open>(0|[1-9][0-9]*)\<close> of the decoder's number pattern.\<close>

definition match_integer :: "pystr \<Rightarrow> (pystr \<times> pystr) option" where
  "match_integer s = (case s of
     [] \<Rightarrow> None
   | c # cs \<Rightarrow>
       if c = 48 then Some ([c], cs)
       else if is_digit c then Some (takeWhile is_digit s, dropWhile is_digit s)
       else None)"

text \<open>The optional parts \<^verbatim>\<open>(\.[0-9]+)?\<close> and \<^verbatim>\<open>([eE][-+]?[0-9]+)?\<close>: either makes a float.\<close>

definition is_frac :: "pystr \<Rightarrow> bool" where
  "is_frac s = (case s of c # d # _ \<Rightarrow> c = ch CHR ''.'' \<and> is_digit d | _ \<Rightarrow> False)"

definition is_exp :: "pystr \<Rightarrow> bool" where
  "is_exp s = (case s of
     c # d # r \<Rightarrow>
       (c = ch CHR ''e'' \<or> c = ch CHR ''E'') \<and>
       (is_digit d \<or>
        ((d = ch CHR ''+'' \<or> d = ch CHR ''-'') \<and> (case r of x # _ \<Rightarrow> is_digit x | [] \<Rightarrow> False)))
   | _ \<Rightarrow> False)"

definition is_float_literal :: "pystr \<Rightarrow> bool" where
  "is_float_literal s =
     (take 3 s = lit ''NaN'' \<or> take 8 s = lit ''Infinity'' \<or> take 9 s = lit ''-Infinity'')"

definition parse_number :: "pystr \<Rightarrow> error + json \<times> pystr" where
  "parse_number s =
     (let neg = (case s of c # _ \<Rightarrow> c = ch CHR ''-'' | [] \<Rightarrow> False);
          s1 = (if neg then tl s else s)
      in case match_integer s1 of
           None \<Rightarrow> if is_float_literal s then Inl NotImplementedError
                   else Inl (JSONDecodeError [])
         | Some (ds, r) \<Rightarrow>
             if is_frac r \<or> is_exp r then Inl NotImplementedError
             else Inr (JInt (if neg then - int (nat_of_digits ds) else int (nat_of_digits ds)), r))"

text \<open>\<^verbatim>\<open>dict(pairs)\<close>: a later pair with the same key replaces the value in place.\<close>

definition dict_of_pairs :: "(pystr \<times> json) list \<Rightarrow> (pystr \<times> json) list" where
  "dict_of_pairs ps = foldl (\<lambda>d kv. AList.update (fst kv) (snd kv) d) [] ps"

text \<open>
  The recursion over nested arrays and objects runs on fuel; where it runs out the
  answer is \<^verbatim>\<open>RecursionError\<close>.
\<close>

fun parse_value :: "nat \<Rightarrow> pystr \<Rightarrow> error + json \<times> pystr"
  and parse_elems :: "nat \<Rightarrow> pystr \<Rightarrow> error + json list \<times> pystr"
  and parse_members :: "nat \<Rightarrow> pystr \<Rightarrow> error + (pystr \<times> json) list \<times> pystr" where
  "parse_value 0 s = Inl RecursionError"
| "parse_value (Suc f) s =
     (case s of
        [] \<Rightarrow> Inl (JSONDecodeError [])
      | c # cs \<Rightarrow>
          if c = quote then
            (case scanstring cs of Inl e \<Rightarrow> Inl e | Inr (str, r) \<Rightarrow> Inr (JStr str, r))
          else if c = ch CHR ''{'' then
            (case skip_ws cs of
               [] \<Rightarrow> Inl (JSONDecodeError [])
             | d # r \<Rightarrow>
                 if d = ch CHR ''}'' then Inr (JObj [], r)
                 else (case parse_members f (d # r) of
                         Inl e \<Rightarrow> Inl e
                       | Inr (ps, r') \<Rightarrow> Inr (JObj (dict_of_pairs ps), r')))
          else if c = ch CHR ''['' then
            (case skip_ws cs of
               [] \<Rightarrow> Inl (JSONDecodeError [])
             | d # r \<Rightarrow>
                 if d = ch CHR '']'' then Inr (JArr [], r)
                 else (case parse_elems f (d # r) of
                         Inl e \<Rightarrow> Inl e
                       | Inr (vs, r') \<Rightarrow> Inr (JArr vs, r')))
          else if take 4 s = lit ''null'' then Inr (JNull, drop 4 s)
          else if take 4 s = lit ''true'' then Inr (JBool True, drop 4 s)
          else if take 5 s = lit ''false'' then Inr (JBool False, drop 5 s)
          else parse_number s)"
| "parse_elems 0 s = Inl RecursionError"
| "parse_elems (Suc f) s =
     (case parse_value f s of
        Inl e \<Rightarrow> Inl e
      | Inr (v, r) \<Rightarrow>
          (case skip_ws r of
             [] \<Rightarrow> Inl (JSONDecodeError [])
           | d # r' \<Rightarrow>
               if d = ch CHR '']'' then Inr ([v], r')
               else if d = ch CHR '','' then
                 (case parse_elems f (skip_ws r') of
                    Inl e \<Rightarrow> Inl e
                  | Inr (vs, r'') \<Rightarrow> Inr (v # vs, r''))
               else Inl (JSONDecodeError [])))"
| "parse_members 0 s = Inl RecursionError"
| "parse_members (Suc f) s =
     (case s of
        [] \<Rightarrow> Inl (JSONDecodeError [])
      | q # cs \<Rightarrow>
          if q \<noteq> quote then Inl (JSONDecodeError [])
          else
            (case scanstring cs of
               Inl e \<Rightarrow> Inl e
             | Inr (key, r) \<Rightarrow>
                 (case skip_ws r of
                    [] \<Rightarrow> Inl (JSONDecodeError [])
                  | colon # r1 \<Rightarrow>
                      if colon \<noteq> ch CHR '':'' then Inl (JSONDecodeError [])
                      else
                        (case parse_value f (skip_ws r1) of
                           Inl e \<Rightarrow> Inl e
                         | Inr (v, r2) \<Rightarrow>
                             (case skip_ws r2 of
                                [] \<Rightarrow> Inl (JSONDecodeError [])
                              | d # r3 \<Rightarrow>
                                  if d = ch CHR ''}'' then Inr ([(key, v)], r3)
                                  else if d = ch CHR '','' then
                                    (case parse_members f (skip_ws r3) of
                                       Inl e \<Rightarrow> Inl e
                                     | Inr (ps, r4) \<Rightarrow> Inr ((key, v) # ps, r4))
                                  else Inl (JSONDecodeError []))))))"

definition ref_loads :: "pystr \<Rightarrow> error + json" where
  "ref_loads s =
     (case parse_value (2 * length s + 1) (skip_ws s) of
        Inl e \<Rightarrow> Inl e
      | Inr (v, r) \<Rightarrow> if skip_ws r = [] then Inr v else Inl (JSONDecodeError []))"

definition ref_lib :: lib where
  "ref_lib = \<lparr>json_dumps = ref_dumps, json_loads = ref_loads, py_str = ref_str\<rparr>"

section \<open>Basic facts about the transport\<close>

lemma send_message_not_started:
  "process self = None \<Longrightarrow>
   send_message L message self = (Inl (Exception (lit ''Server not started'')), self)"
  by (simp add: send_message_def)

lemma read_message_not_started:
  "process self = None \<Longrightarrow>
   read_message L self = (Inl (Exception (lit ''Server not started'')), self)"
  by (simp add: read_message_def)

lemma send_message_started:
  assumes "process self = Some p" and "json_dumps L message = Inr s"
      and "encode (s @ lit [newline]) = Inr data" and "\<not> connection_lost p"
  shows "send_message L message self
           = (Inr (), self\<lparr>process := Some (p\<lparr>stdin := stdin p @ data\<rparr>)\<rparr>)"
  using assms by (simp add: send_message_def)

lemma send_message_Inr:
  assumes "send_message L message self = (Inr u, self')"
  shows "\<exists>p s data. process self = Some p \<and> json_dumps L message = Inr s \<and>
           encode (s @ lit [newline]) = Inr data \<and> \<not> connection_lost p \<and>
           self' = self\<lparr>process := Some (p\<lparr>stdin := stdin p @ data\<rparr>)\<rparr>"
  using assms by (auto simp: send_message_def split: option.splits sum.splits if_splits)


lemma readline_Inr_Nil: "readline s = (Inr [], rest) \<Longrightarrow> s = []"
  by (cases s) (auto simp: readline_def Let_def split: list.splits if_splits)

lemma call_tool_not_started:
  "process self = None \<Longrightarrow>
   call_tool L tool_name arguments self = (Inl (Exception (lit ''Server not started'')), self)"
  by (simp add: call_tool_def send_message_def)

lemma parse_result_Inl: "parse_result L (Inl e, self) = (Inl e, self)"
  by (simp add: parse_result_def)

text \<open>Reading a message writes nothing to the child.\<close>

lemma read_message_stdin:
  "map_option stdin (process (snd (read_message L self))) = map_option stdin (process self)"
  by (auto simp: read_message_def Let_def split: option.splits prod.splits sum.splits)

lemma call_tool_stdin:
  "map_option stdin (process (snd (call_tool L tool_name arguments self)))
     = map_option stdin (process (snd (send_message L (tools_call_request tool_name arguments) self)))"
proof -
  obtain r self1 where s: "send_message L (tools_call_request tool_name arguments) self = (r, self1)"
    by (cases "send_message L (tools_call_request tool_name arguments) self")
  obtain r' self2 where rd: "read_message L self1 = (r', self2)"
    by (cases "read_message L self1")
  have "map_option stdin (process self2) = map_option stdin (process self1)"
    using read_message_stdin [of L self1] by (simp add: rd)
  then show ?thesis
    by (auto simp: call_tool_def s rd split: sum.splits bool.splits)
qed

lemma start_stdin:
  "map_option stdin (process (snd (start L (Inr p) self)))
     = map_option stdin
         (process (snd (send_message L initialize_request (self\<lparr>process := Some p\<rparr>))))"
proof -
  obtain r self1 where s: "send_message L initialize_request (self\<lparr>process := Some p\<rparr>) = (r, self1)"
    by (cases "send_message L initialize_request (self\<lparr>process := Some p\<rparr>)")
  obtain r' self2 where rd: "read_message L self1 = (r', self2)"
    by (cases "read_message L self1")
  have "map_option stdin (process self2) = map_option stdin (process self1)"
    using read_message_stdin [of L self1] by (simp add: rd)
  then show ?thesis
    by (auto simp: start_def Let_def s rd split: sum.splits)
qed

subsection \<open>Lines of ASCII\<close>

lemma encode_append:
  "encode (s @ t) =
     (case encode s of Inl e \<Rightarrow> Inl e
      | Inr bs \<Rightarrow> (case encode t of Inl e \<Rightarrow> Inl e | Inr r \<Rightarrow> Inr (bs @ r)))"
  by (induction s) (auto split: sum.splits)

lemma encode_ascii: "\<forall>c\<in>set s. c < 128 \<Longrightarrow> encode s = Inr (map byte s)"
  by (induction s) (auto simp: encode_char_def)

lemma decode_ascii: "\<forall>c\<in>set bs. (of_char c :: nat) < 128 \<Longrightarrow> decode bs = Inr (map of_char bs)"
  by (induction bs) (auto simp: decoded_def Let_def)

lemma char_of_eq_nat: "n < 256 \<Longrightarrow> char_of (n::nat) = c \<longleftrightarrow> n = of_char c"
  by (simp add: char_of_eq_iff take_bit_eq_mod)

lemma byte_newline: "byte 10 = newline"
  by (simp add: byte_def char_of_eq_nat)


lemma encode_line:
  "\<forall>c\<in>set s. c < 128 \<Longrightarrow> encode (s @ lit [newline]) = Inr (map byte s @ [newline])"
  by (simp add: encode_append encode_ascii encode_char_def byte_newline)

lemma takeWhile_no_newline:
  "newline \<notin> set l \<Longrightarrow> takeWhile (\<lambda>c. c \<noteq> newline) (l @ newline # rest) = l"
  by (induction l) auto

lemma dropWhile_no_newline:
  "newline \<notin> set l \<Longrightarrow> dropWhile (\<lambda>c. c \<noteq> newline) (l @ newline # rest) = newline # rest"
  by (induction l) auto

lemma readline_line:
  "newline \<notin> set l \<Longrightarrow> length l \<le> stream_limit \<Longrightarrow>
   readline (l @ newline # rest) = (Inr (l @ [newline]), rest)"
  by (simp add: readline_def Let_def takeWhile_no_newline dropWhile_no_newline)


lemma isspace_newline: "isspace 10"
  by (simp add: isspace_def)

lemma strip_line: "strip (s @ [10]) = strip s"
proof (cases "\<forall>c\<in>set s. isspace c")
  case True
  then have a: "dropWhile isspace (s @ [10]) = []" and b: "dropWhile isspace s = []"
    by (simp_all add: isspace_newline dropWhile_eq_Nil_conv)
  show ?thesis by (simp only: strip_def a b)
next
  case False
  then obtain x where "x \<in> set s" "\<not> isspace x"
    by blast
  then have "dropWhile isspace (s @ [10]) = dropWhile isspace s @ [10]"
    by (rule dropWhile_append1)
  then show ?thesis by (simp add: strip_def isspace_newline)
qed

lemma strip_id:
  assumes "s \<noteq> []" "\<not> isspace (hd s)" "\<not> isspace (last s)"
  shows "strip s = s"
proof -
  have a: "dropWhile isspace s = s"
    using assms(2) by (simp add: dropWhile_eq_self_iff)
  have "hd (rev s) = last s"
    using assms(1) by (simp add: hd_rev)
  then have "dropWhile isspace (rev s) = rev s"
    using assms(3) by (simp add: dropWhile_eq_self_iff)
  then show ?thesis by (simp add: strip_def a)
qed

text \<open>
  A line of ASCII within the limit, followed by its newline: \<^verbatim>\<open>_read_message\<close> hands
  its text, stripped, to \<^verbatim>\<open>json.loads\<close>.
\<close>

lemma read_message_line:
  assumes "process self = Some p" and "stdout p = l @ newline # rest"
      and "newline \<notin> set l" and "length l \<le> stream_limit"
      and "\<forall>c\<in>set l. (of_char c :: nat) < 128"
  shows "read_message L self
           = (json_loads L (strip (map of_char l)), self\<lparr>process := Some (p\<lparr>stdout := rest\<rparr>)\<rparr>)"
proof -
  have r: "readline (stdout p) = (Inr (l @ [newline]), rest)"
    using assms(2-4) by (simp add: readline_line)
  have d: "decode (l @ [newline]) = Inr (map of_char l @ [10])"
    using assms(5) by (simp add: decode_ascii)
  show ?thesis
    by (simp add: read_message_def assms(1) r d strip_line)
qed

text \<open>
  What \<^verbatim>\<open>call_tool\<close> gives when the request goes out and the child answers one such
  line that \<^verbatim>\<open>json.loads\<close> accepts.
\<close>

lemma call_tool_response:
  assumes "process self = Some p" and "\<not> connection_lost p"
      and "json_dumps L (tools_call_request tool_name arguments) = Inr s"
      and "encode (s @ lit [newline]) = Inr data"
      and "stdout p = l @ newline # rest"
      and "newline \<notin> set l" and "length l \<le> stream_limit"
      and "\<forall>c\<in>set l. (of_char c :: nat) < 128"
      and "json_loads L (strip (map of_char l)) = Inr response"
  shows "fst (call_tool L tool_name arguments self) =
           (case py_contains (lit ''error'') response of
              Inl e \<Rightarrow> Inl e
            | Inr True \<Rightarrow>
                (case py_getitem response (lit ''error'') of
                   Inl e \<Rightarrow> Inl e
                 | Inr payload \<Rightarrow>
                     (case py_str L payload of
                        Inl e \<Rightarrow> Inl e
                      | Inr m \<Rightarrow> Inl (Exception (lit ''Tool error: '' @ m))))
            | Inr False \<Rightarrow> extract_text response)"
proof -
  let ?self1 = "self\<lparr>process := Some (p\<lparr>stdin := stdin p @ data\<rparr>)\<rparr>"
  have s: "send_message L (tools_call_request tool_name arguments) self = (Inr (), ?self1)"
    using assms(1-4) by (simp add: send_message_started)
  have "read_message L ?self1
          = (json_loads L (strip (map of_char l)),
             ?self1\<lparr>process := Some (p\<lparr>stdin := stdin p @ data, stdout := rest\<rparr>)\<rparr>)"
    using read_message_line [of ?self1 "p\<lparr>stdin := stdin p @ data\<rparr>" l rest L] assms(5-8)
    by simp
  then show ?thesis
    by (simp add: call_tool_def s assms(9) split: sum.splits bool.splits)
qed

subsection \<open>The same with the reference library\<close>

lemma ref_send_message:
  assumes "\<forall>c\<in>set (dumps message). c < 128"
      and "process self = Some p" and "\<not> connection_lost p"
  shows "send_message ref_lib message self
           = (Inr (), self\<lparr>process := Some (p\<lparr>stdin := stdin p @ map byte (dumps message) @ [newline]\<rparr>)\<rparr>)"
  using send_message_started [OF assms(2) _ encode_line [OF assms(1)] assms(3), of ref_lib message]
  by (simp add: ref_lib_def ref_dumps_def)

lemma ref_read_message:
  assumes "process self = Some p" and "stdout p = l @ [newline]"
      and "newline \<notin> set l" and "length l \<le> 1000"
      and "\<forall>c\<in>set l. (of_char c :: nat) < 128"
      and "lit l \<noteq> []" and "\<not> isspace (hd (lit l))" and "\<not> isspace (last (lit l))"
  shows "read_message ref_lib self
           = (ref_loads (lit l), self\<lparr>process := Some (p\<lparr>stdout := []\<rparr>)\<rparr>)"
proof -
  have "length l \<le> stream_limit"
    using assms(4) by (simp add: stream_limit_def)
  then show ?thesis
    using read_message_line [OF assms(1) _ assms(3) _ assms(5), of "[]" ref_lib] assms(2)
      strip_id [OF assms(6-8)]
    by (simp add: ref_lib_def)
qed

lemma ref_call_tool:
  assumes "\<forall>c\<in>set (dumps (tools_call_request tool_name arguments)). c < 128"
      and "newline \<notin> set l" and "length l \<le> 1000"
      and "\<forall>c\<in>set l. (of_char c :: nat) < 128"
      and "lit l \<noteq> []" and "\<not> isspace (hd (lit l))" and "\<not> isspace (last (lit l))"
      and "ref_loads (lit l) = Inr response"
  shows "fst (call_tool ref_lib tool_name arguments
                \<lparr>server_path = path,
                   process = Some \<lparr>stdin = i, stdout = l @ [newline], connection_lost = False\<rparr>\<rparr>) =
           (case py_contains (lit ''error'') response of
              Inl e \<Rightarrow> Inl e
            | Inr True \<Rightarrow>
                (case py_getitem response (lit ''error'') of
                   Inl e \<Rightarrow> Inl e
                 | Inr payload \<Rightarrow>
                     (case ref_str payload of
                        Inl e \<Rightarrow> Inl e
                      | Inr m \<Rightarrow> Inl (Exception (lit ''Tool error: '' @ m))))
            | Inr False \<Rightarrow> extract_text response)"
proof -
  let ?p = "\<lparr>stdin = i, stdout = l @ [newline], connection_lost = False\<rparr>"
  let ?req = "tools_call_request tool_name arguments"
  have d: "json_dumps ref_lib ?req = Inr (dumps ?req)"
    by (simp add: ref_lib_def ref_dumps_def)
  have len: "length l \<le> stream_limit"
    using assms(3) by (simp add: stream_limit_def)
  have ld: "json_loads ref_lib (strip (map of_char l)) = Inr response"
    using assms(8) strip_id [OF assms(5-7)] by (simp add: ref_lib_def)
  have ps: "py_str ref_lib = ref_str"
    by (simp add: ref_lib_def)
  show ?thesis
    using call_tool_response [where p = ?p and l = l and rest = "[]" and response = response
            and L = ref_lib and self = "\<lparr>server_path = path, process = Some ?p\<rparr>",
            OF _ _ d encode_line [OF assms(1)] _ assms(2) len assms(4) ld, unfolded ps]
    by simp
qed

subsection \<open>Bytes of ASCII text\<close>






section \<open>Tool calls\<close>

text \<open>
  What line 92 gives for a response that is a dictionary: the value under
  \<^verbatim>\<open>result.content[0].text\<close> when it is there, the empty string when \<^verbatim>\<open>result\<close>,
  \<^verbatim>\<open>content\<close> or \<^verbatim>\<open>text\<close> is missing, and \<^verbatim>\<open>IndexError\<close> when \<^verbatim>\<open>content\<close> is an
  empty list, because the default \<^verbatim>\<open>[{}]\<close> only replaces a missing key.
\<close>

lemma extract_text_cases:
  "map_of kvs (lit ''result'') = None \<Longrightarrow> extract_text (JObj kvs) = Inr (JStr [])"
  "map_of kvs (lit ''result'') = Some (JObj r) \<Longrightarrow> map_of r (lit ''content'') = None
     \<Longrightarrow> extract_text (JObj kvs) = Inr (JStr [])"
  "map_of kvs (lit ''result'') = Some (JObj r)
     \<Longrightarrow> map_of r (lit ''content'') = Some (JArr (JObj e # es))
     \<Longrightarrow> map_of e (lit ''text'') = None \<Longrightarrow> extract_text (JObj kvs) = Inr (JStr [])"
  "map_of kvs (lit ''result'') = Some (JObj r)
     \<Longrightarrow> map_of r (lit ''content'') = Some (JArr (JObj e # es))
     \<Longrightarrow> map_of e (lit ''text'') = Some t \<Longrightarrow> extract_text (JObj kvs) = Inr t"
  "map_of kvs (lit ''result'') = Some (JObj r) \<Longrightarrow> map_of r (lit ''content'') = Some (JArr [])
     \<Longrightarrow> extract_text (JObj kvs) = Inl IndexError"
  by (simp_all add: extract_text_def)

text \<open>
  C1. A successful tool-call response returns the string at \<^verbatim>\<open>result.content[0].text\<close>,
  and the empty string when \<^verbatim>\<open>content\<close> is absent, empty, or its first element has no
  \<^verbatim>\<open>text\<close>. The code does so for an absent \<^verbatim>\<open>content\<close> and for a first element
  without \<^verbatim>\<open>text\<close> (\<open>extract_text_cases\<close>), but not for an empty \<^verbatim>\<open>content\<close>: on the
  response \<^verbatim>\<open>{"jsonrpc": "2.0", "id": 2, "result": {"content": []}}\<close> the call
  \<^verbatim>\<open>fetch_posts("python", 3)\<close> makes to \<^verbatim>\<open>call_tool\<close> raises \<^verbatim>\<open>IndexError\<close>.
\<close>

theorem call_tool_empty_content:
  "fst (call_tool ref_lib (lit ''fetchPosts'')
          (JObj [(lit ''subreddit'', JStr (lit ''python'')), (lit ''limit'', JInt 3)])
     \<lparr>server_path = lit ''server.py'',
        process = Some \<lparr>stdin = [],
          stdout = ''{\"jsonrpc\": \"2.0\", \"id\": 2, \"result\": {\"content\": []}}'' @ [newline],
          connection_lost = False\<rparr>\<rparr>)
   = Inl IndexError"
proof -
  let ?l = "''{\"jsonrpc\": \"2.0\", \"id\": 2, \"result\": {\"content\": []}}''"
  let ?response = "JObj [(lit ''jsonrpc'', JStr (lit ''2.0'')), (lit ''id'', JInt 2),
                         (lit ''result'', JObj [(lit ''content'', JArr [])])]"
  have a: "\<forall>c\<in>set (dumps (tools_call_request (lit ''fetchPosts'')
             (JObj [(lit ''subreddit'', JStr (lit ''python'')), (lit ''limit'', JInt 3)]))). c < 128"
    by code_simp
  have ld: "ref_loads (lit ?l) = Inr ?response"
    by code_simp
  show ?thesis
    using ref_call_tool [where l = ?l and response = ?response, OF a _ _ _ _ _ _ ld]
    by (simp add: isspace_def extract_text_def)
qed

text \<open>
  C2, as stated, fails. The claim has \<^verbatim>\<open>call_tool\<close> raise an error that carries the
  \<^verbatim>\<open>error\<close> field of the response verbatim. Lines 89 and 90 raise
  \<^verbatim>\<open>Exception(f"Tool error: {response['error']}")\<close>, which holds the text that
  \<^verbatim>\<open>str\<close> gives for the field and not the field: the responses
  \<^verbatim>\<open>{"jsonrpc": "2.0", "id": 2, "error": "1"}\<close> and
  \<^verbatim>\<open>{"jsonrpc": "2.0", "id": 2, "error": 1}\<close>, whose \<^verbatim>\<open>error\<close> fields differ (a string
  and an integer), raise the same exception, \<^verbatim>\<open>Exception('Tool error: 1')\<close>.
\<close>

theorem call_tool_error_payload_counterexample:
  "fst (call_tool ref_lib (lit ''getComments'') (JObj [(lit ''post_id'', JStr (lit ''abc''))])
          \<lparr>server_path = lit ''server.py'',
             process = Some \<lparr>stdin = [],
               stdout = ''{\"jsonrpc\": \"2.0\", \"id\": 2, \"error\": \"1\"}'' @ [newline],
               connection_lost = False\<rparr>\<rparr>)
     = Inl (Exception (lit ''Tool error: 1''))
   \<and> fst (call_tool ref_lib (lit ''getComments'') (JObj [(lit ''post_id'', JStr (lit ''abc''))])
          \<lparr>server_path = lit ''server.py'',
             process = Some \<lparr>stdin = [],
               stdout = ''{\"jsonrpc\": \"2.0\", \"id\": 2, \"error\": 1}'' @ [newline],
               connection_lost = False\<rparr>\<rparr>)
     = Inl (Exception (lit ''Tool error: 1''))
   \<and> JStr (lit ''1'') \<noteq> JInt 1"
proof -
  let ?l1 = "''{\"jsonrpc\": \"2.0\", \"id\": 2, \"error\": \"1\"}''"
  let ?l2 = "''{\"jsonrpc\": \"2.0\", \"id\": 2, \"error\": 1}''"
  let ?r1 = "JObj [(lit ''jsonrpc'', JStr (lit ''2.0'')), (lit ''id'', JInt 2),
                   (lit ''error'', JStr (lit ''1''))]"
  let ?r2 = "JObj [(lit ''jsonrpc'', JStr (lit ''2.0'')), (lit ''id'', JInt 2),
                   (lit ''error'', JInt 1)]"
  have a: "\<forall>c\<in>set (dumps (tools_call_request (lit ''getComments'')
             (JObj [(lit ''post_id'', JStr (lit ''abc''))]))). c < 128"
    by code_simp
  have ld1: "ref_loads (lit ?l1) = Inr ?r1"
    by code_simp
  have ld2: "ref_loads (lit ?l2) = Inr ?r2"
    by code_simp
  have s1: "ref_str (JStr [49]) = Inr [49]"
    by (simp add: ref_str_def)
  have s2: "ref_str (JInt 1) = Inr [49]"
    by code_simp
  show ?thesis
    using ref_call_tool [where l = ?l1 and response = ?r1, OF a _ _ _ _ _ _ ld1]
          ref_call_tool [where l = ?l2 and response = ?r2, OF a _ _ _ _ _ _ ld2]
    by (simp add: isspace_def s1 s2)
qed

text \<open>
  C2, amended. When the response envelope that \<^verbatim>\<open>call_tool\<close> receives (a dictionary)
  has an \<^verbatim>\<open>error\<close> key, \<^verbatim>\<open>call_tool\<close> returns no value: it raises a plain
  \<^verbatim>\<open>Exception\<close> whose message is \<^verbatim>\<open>Tool error: \<close> followed by \<^verbatim>\<open>str\<close> of the value
  under that key, whatever else the envelope holds (or what \<^verbatim>\<open>str\<close> raises, should
  it raise).
\<close>

theorem call_tool_error_field:
  assumes "send_message L (tools_call_request tool_name arguments) self = (Inr (), self1)"
      and "read_message L self1 = (Inr (JObj kvs), self2)"
      and "lit ''error'' \<in> set (map fst kvs)"
  shows "\<exists>payload. map_of kvs (lit ''error'') = Some payload \<and>
           call_tool L tool_name arguments self =
             (case py_str L payload of
                Inl e \<Rightarrow> (Inl e, self2)
              | Inr s \<Rightarrow> (Inl (Exception (lit ''Tool error: '' @ s)), self2)) \<and>
           (\<forall>v. fst (call_tool L tool_name arguments self) \<noteq> Inr v)"
proof -
  obtain payload where p: "map_of kvs (lit ''error'') = Some payload"
    using assms(3) by (metis domD dom_map_of_conv_image_fst set_map)
  have c: "call_tool L tool_name arguments self =
             (case py_str L payload of
                Inl e \<Rightarrow> (Inl e, self2)
              | Inr s \<Rightarrow> (Inl (Exception (lit ''Tool error: '' @ s)), self2))"
    using assms p by (simp add: call_tool_def)
  have "fst (call_tool L tool_name arguments self) \<noteq> Inr v" for v
    unfolding c by (cases "py_str L payload") simp_all
  then show ?thesis
    using p c by blast
qed

text \<open>
  C2, an instance: the response \<^verbatim>\<open>{"id": 2, "error": {"message": "not found"}}\<close> to
  \<^verbatim>\<open>getComments\<close>.
\<close>

theorem call_tool_error_field_witness:
  "fst (call_tool ref_lib (lit ''getComments'') (JObj [(lit ''post_id'', JStr (lit ''abc''))])
          \<lparr>server_path = lit ''server.py'',
             process = Some \<lparr>stdin = [],
               stdout = ''{\"id\": 2, \"error\": {\"message\": \"not found\"}}'' @ [newline],
               connection_lost = False\<rparr>\<rparr>)
     = Inl (Exception (lit ''Tool error: {'message': 'not found'}''))"
proof -
  let ?req = "tools_call_request (lit ''getComments'') (JObj [(lit ''post_id'', JStr (lit ''abc''))])"
  let ?l = "''{\"id\": 2, \"error\": {\"message\": \"not found\"}}''"
  let ?p = "\<lparr>stdin = [], stdout = ?l @ [newline], connection_lost = False\<rparr>"
  let ?c = "\<lparr>server_path = lit ''server.py'', process = Some ?p\<rparr>"
  let ?p1 = "?p\<lparr>stdin := stdin ?p @ map byte (dumps ?req) @ [newline]\<rparr>"
  let ?c1 = "?c\<lparr>process := Some ?p1\<rparr>"
  let ?c2 = "?c1\<lparr>process := Some (?p1\<lparr>stdout := []\<rparr>)\<rparr>"
  let ?kvs = "[(lit ''id'', JInt 2), (lit ''error'', JObj [(lit ''message'', JStr (lit ''not found''))])]"
  have a: "\<forall>c\<in>set (dumps ?req). c < 128"
    by code_simp
  have h1: "send_message ref_lib ?req ?c = (Inr (), ?c1)"
    using ref_send_message [OF a, of ?c ?p] by simp
  have ld: "ref_loads (lit ?l) = Inr (JObj ?kvs)"
    by code_simp
  have h2: "read_message ref_lib ?c1 = (Inr (JObj ?kvs), ?c2)"
    using ref_read_message [of ?c1 ?p1 ?l] ld by (simp add: isspace_def)
  have h3: "lit ''error'' \<in> set (map fst ?kvs)"
    by simp
  have "ref_str (JObj [(lit ''message'', JStr (lit ''not found''))]) = Inr (lit ''{'message': 'not found'}'')"
    by code_simp
  then have s: "py_str ref_lib (JObj [(lit ''message'', JStr (lit ''not found''))]) = Inr (lit ''{'message': 'not found'}'')"
    by (simp add: ref_lib_def)
  show ?thesis
    using call_tool_error_field [OF h1 h2 h3] s by simp
qed

section \<open>Receiving\<close>




section \<open>Framing\<close>








section \<open>Initialization\<close>

text \<open>
  C5. \<^verbatim>\<open>start\<close> succeeds exactly when the response envelope it reads (a dictionary)
  carries a \<^verbatim>\<open>result\<close> that is not empty, in the sense of
  \<^verbatim>\<open>if response.get("result")\<close>: present, and not \<^verbatim>\<open>None\<close>, \<^verbatim>\<open>False\<close>, zero, the empty
  string, list or dictionary. For every other envelope it raises the initialization
  failure, the \<^verbatim>\<open>Exception\<close> whose message is \<^verbatim>\<open>Failed to initialize: \<close> followed by
  the whole response as \<^verbatim>\<open>str\<close> prints it. A failure of spawning the child, of
  \<^verbatim>\<open>_send_message\<close> or of \<^verbatim>\<open>_read_message\<close> is raised as it is.
\<close>

theorem start_succeeds_iff_result:
  "(\<forall>e. child = Inl e \<longrightarrow> start L child self = (Inl e, self))
   \<and> (\<forall>p e self1. child = Inr p
          \<and> send_message L initialize_request (self\<lparr>process := Some p\<rparr>) = (Inl e, self1)
        \<longrightarrow> start L child self = (Inl e, self1))
   \<and> (\<forall>p self1 e self2. child = Inr p
          \<and> send_message L initialize_request (self\<lparr>process := Some p\<rparr>) = (Inr (), self1)
          \<and> read_message L self1 = (Inl e, self2)
        \<longrightarrow> start L child self = (Inl e, self2))
   \<and> (\<forall>p self1 kvs self2. child = Inr p
          \<and> send_message L initialize_request (self\<lparr>process := Some p\<rparr>) = (Inr (), self1)
          \<and> read_message L self1 = (Inr (JObj kvs), self2)
        \<longrightarrow> (fst (start L child self) = Inr ())
              = (\<exists>r. map_of kvs (lit ''result'') = Some r \<and> truthy r)
          \<and> ((\<exists>r. map_of kvs (lit ''result'') = Some r \<and> truthy r)
               \<longrightarrow> start L child self = (Inr (), self2))
          \<and> (\<not> (\<exists>r. map_of kvs (lit ''result'') = Some r \<and> truthy r)
               \<longrightarrow> start L child self
                     = (case py_str L (JObj kvs) of
                          Inl e \<Rightarrow> (Inl e, self2)
                        | Inr s \<Rightarrow> (Inl (Exception (lit ''Failed to initialize: '' @ s)), self2))))"
  by (auto simp: start_def Let_def split: option.splits sum.splits)

text \<open>
  C5, an instance: the child answers \<^verbatim>\<open>{"jsonrpc": "2.0", "id": 1, "result": {}}\<close>,
  whose \<^verbatim>\<open>result\<close> is empty.
\<close>

theorem start_succeeds_iff_result_witness:
  "fst (start ref_lib
          (Inr \<lparr>stdin = [], stdout = ''{\"jsonrpc\": \"2.0\", \"id\": 1, \"result\": {}}'' @ [newline],
                connection_lost = False\<rparr>)
          (RedditMCPClient (lit ''server.py'')))
     = Inl (Exception (lit ''Failed to initialize: {'jsonrpc': '2.0', 'id': 1, 'result': {}}''))"
proof -
  let ?l = "''{\"jsonrpc\": \"2.0\", \"id\": 1, \"result\": {}}''"
  let ?p = "\<lparr>stdin = [], stdout = ?l @ [newline], connection_lost = False\<rparr>"
  let ?c = "RedditMCPClient (lit ''server.py'')"
  let ?p1 = "?p\<lparr>stdin := stdin ?p @ map byte (dumps initialize_request) @ [newline]\<rparr>"
  let ?c1 = "?c\<lparr>process := Some ?p1\<rparr>"
  let ?c2 = "?c1\<lparr>process := Some (?p1\<lparr>stdout := []\<rparr>)\<rparr>"
  let ?kvs = "[(lit ''jsonrpc'', JStr (lit ''2.0'')), (lit ''id'', JInt 1), (lit ''result'', JObj [])]"
  have a: "\<forall>c\<in>set (dumps initialize_request). c < 128"
    by code_simp
  have h1: "send_message ref_lib initialize_request (?c\<lparr>process := Some ?p\<rparr>) = (Inr (), ?c1)"
    using ref_send_message [OF a, of "?c\<lparr>process := Some ?p\<rparr>" ?p] by simp
  have ld: "ref_loads (lit ?l) = Inr (JObj ?kvs)"
    by code_simp
  have h2: "read_message ref_lib ?c1 = (Inr (JObj ?kvs), ?c2)"
    using ref_read_message [of ?c1 ?p1 ?l] ld by (simp add: isspace_def)
  have "ref_str (JObj ?kvs) = Inr (lit ''{'jsonrpc': '2.0', 'id': 1, 'result': {}}'')"
    by code_simp
  then have s: "py_str ref_lib (JObj ?kvs) = Inr (lit ''{'jsonrpc': '2.0', 'id': 1, 'result': {}}'')"
    by (simp add: ref_lib_def)
  show ?thesis
    using start_succeeds_iff_result [of "Inr ?p" ref_lib ?c] h1 h2 s by simp
qed

section \<open>Decoding the payload\<close>

text \<open>
  C6. \<^verbatim>\<open>_safe_json_parse\<close> fails on the empty string and on a string of white space
  with \<^verbatim>\<open>Exception("Empty response from server")\<close>, and on a text that
  \<^verbatim>\<open>json.loads\<close> rejects with an \<^verbatim>\<open>Exception\<close> whose message holds \<^verbatim>\<open>text[:100]\<close>, a
  prefix of the text of at most 100 characters, between \<^verbatim>\<open>Invalid JSON response: \<close>
  and the decoder's own message. In neither case does it return a value.
\<close>

theorem safe_json_parse_rejects:
  "(strip s = [] \<longrightarrow>
      safe_json_parse L (JStr s) = Inl (Exception (lit ''Empty response from server'')))
   \<and> (strip s \<noteq> [] \<and> json_loads L s = Inl (JSONDecodeError m) \<longrightarrow>
        safe_json_parse L (JStr s)
          = Inl (Exception (lit ''Invalid JSON response: '' @ take 100 s @ lit ''... Error: '' @ m))
        \<and> length (take 100 s) \<le> 100 \<and> prefix (take 100 s) s)"
  by (auto simp: safe_json_parse_def strip_def take_is_prefix)

text \<open>C6, two instances: a blank, and the text \<^verbatim>\<open>not json\<close>.\<close>

theorem safe_json_parse_rejects_witness:
  "safe_json_parse ref_lib (JStr (lit '' '')) = Inl (Exception (lit ''Empty response from server''))
   \<and> safe_json_parse ref_lib (JStr (lit ''not json''))
       = Inl (Exception (lit ''Invalid JSON response: not json... Error: ''))"
proof -
  have a: "strip (lit '' '') = []"
    by (simp add: strip_def isspace_def)
  have b: "strip (lit ''not json'') \<noteq> []"
    by (simp add: strip_def isspace_def)
  have "ref_loads (lit ''not json'') = Inl (JSONDecodeError [])"
    by code_simp
  then have c: "json_loads ref_lib (lit ''not json'') = Inl (JSONDecodeError [])"
    by (simp add: ref_lib_def)
  show ?thesis
    using safe_json_parse_rejects [of "lit '' ''" ref_lib "[]"]
          safe_json_parse_rejects [of "lit ''not json''" ref_lib "[]"] a b c
    by simp
qed

section \<open>The facade\<close>

text \<open>
  C3, as stated, fails. The claim has \<^verbatim>\<open>initialize\<close> raise a timeout error when
  \<^verbatim>\<open>start\<close> does not complete within 10 seconds, and surface every failure to its
  caller. Lines 62 to 64 catch every \<^verbatim>\<open>Exception\<close>, print it and return \<^verbatim>\<open>False\<close>:
  on a child that never answers, \<^verbatim>\<open>initialize\<close> returns \<^verbatim>\<open>False\<close>.
\<close>

theorem initialize_timeout_counterexample:
  "fst (initialize ref_lib None (Inr \<lparr>stdin = [], stdout = [], connection_lost = False\<rparr>)
          RedditSyncClient) = Inr False"
  by (simp add: initialize_def initialize_try_def future_result_def completes_within_def
        RedditSyncClient_def Let_def)

text \<open>
  C3, amended. \<^verbatim>\<open>initialize\<close> raises nothing. It returns \<^verbatim>\<open>True\<close> when the facade
  is already initialized, or when \<^verbatim>\<open>start\<close> completes within the 10 seconds without
  an exception; it returns \<^verbatim>\<open>False\<close> in every other case, that is, on a timeout and
  on every failure of \<^verbatim>\<open>start\<close>. The flag \<^verbatim>\<open>initialized\<close> afterwards is the value
  returned.
\<close>

theorem initialize_returns_bool:
  "fst (initialize L elapsed child self)
     = Inr (initialized self \<or>
            completes_within 10 elapsed \<and> fst (start L child (RedditMCPClient server_py)) = Inr ())
   \<and> initialized (snd (initialize L elapsed child self))
     = (initialized self \<or>
        completes_within 10 elapsed \<and> fst (start L child (RedditMCPClient server_py)) = Inr ())"
proof -
  obtain r c' where st: "start L child (RedditMCPClient server_py) = (r, c')"
    by (cases "start L child (RedditMCPClient server_py)")
  show ?thesis
    by (cases r) (auto simp: initialize_def initialize_try_def future_result_def Let_def st)
qed

text \<open>
  Where the guard of \<^verbatim>\<open>_run_async\<close> is reached: a facade that holds a client and is
  not initialized, as after an \<^verbatim>\<open>initialize\<close> that returned \<^verbatim>\<open>False\<close>.
\<close>

lemma delegate_not_initialized:
  "client self = Some c \<Longrightarrow> \<not> initialized self \<Longrightarrow>
   delegate elapsed self method
     = (Inl (Exception (lit ''Client not initialized. Call initialize() first.'')), self)"
  by (simp add: delegate_def run_async_def)

lemma delegate_no_client:
  "client self = None \<Longrightarrow> delegate elapsed self method = (Inl AttributeError, self)"
  by (simp add: delegate_def)

text \<open>
  C8. A delegated operation on a facade that is not initialized is to fail with the
  error of the guard in \<^verbatim>\<open>_run_async\<close>,
  \<^verbatim>\<open>Exception("Client not initialized. Call initialize() first.")\<close>. On a facade on
  which \<^verbatim>\<open>initialize\<close> was never called the guard is not reached: each of the six
  operations first evaluates \<^verbatim>\<open>self.client.fetch_posts(...)\<close> with \<^verbatim>\<open>self.client\<close>
  still \<^verbatim>\<open>None\<close>, and raises \<^verbatim>\<open>AttributeError\<close>. (On a client whose process was never
  started a tool call does fail, with \<^verbatim>\<open>Exception("Server not started")\<close>:
  \<open>call_tool_not_started\<close>.)
\<close>

theorem delegated_before_initialize:
  "sync_fetch_posts L elapsed subreddit limit RedditSyncClient
     = (Inl AttributeError, RedditSyncClient)
   \<and> sync_search_posts L elapsed subreddit query limit RedditSyncClient
     = (Inl AttributeError, RedditSyncClient)
   \<and> sync_get_comments L elapsed post_id RedditSyncClient
     = (Inl AttributeError, RedditSyncClient)
   \<and> sync_get_subreddit_info L elapsed subreddit RedditSyncClient
     = (Inl AttributeError, RedditSyncClient)
   \<and> sync_post_comment L elapsed post_id comment_text RedditSyncClient
     = (Inl AttributeError, RedditSyncClient)
   \<and> sync_post_to_subreddit L elapsed subreddit title content url RedditSyncClient
     = (Inl AttributeError, RedditSyncClient)"
  by (simp add: sync_fetch_posts_def sync_search_posts_def sync_get_comments_def
        sync_get_subreddit_info_def sync_post_comment_def sync_post_to_subreddit_def
        delegate_def RedditSyncClient_def)

section \<open>Requests\<close>

text \<open>
  C9. The request of \<^verbatim>\<open>start\<close> has the id 1 and the request of \<^verbatim>\<open>call_tool\<close> the id
  2, for every tool name and every arguments; and the bytes that \<^verbatim>\<open>start\<close> and
  \<^verbatim>\<open>call_tool\<close> write to the child are those that \<^verbatim>\<open>_send_message\<close> writes for
  these two requests, whatever the state of the client, hence however many calls
  came before.
\<close>

theorem request_ids_fixed:
  "py_getitem initialize_request (lit ''id'') = Inr (JInt 1)
   \<and> py_getitem (tools_call_request tool_name arguments) (lit ''id'') = Inr (JInt 2)
   \<and> map_option stdin (process (snd (start L (Inr p) self)))
       = map_option stdin
           (process (snd (send_message L initialize_request (self\<lparr>process := Some p\<rparr>))))
   \<and> map_option stdin (process (snd (call_tool L tool_name arguments self)))
       = map_option stdin
           (process (snd (send_message L (tools_call_request tool_name arguments) self)))"
  using start_stdin [of L p self] call_tool_stdin [of L tool_name arguments self]
  by (simp add: initialize_request_def tools_call_request_def)


end
